theory Spec2Isabelle
  imports Main "HOL-Library.Monad_Syntax"
begin

section \<open>Instants and durations\<close>

text \<open>
  A Go \<open>time.Time\<close> is read as the instant it denotes: a whole number of nanoseconds
  since 1970-01-01T00:00:00Z. A \<open>time.Duration\<close> is a count of nanoseconds. The
  process's local zone is taken to be UTC, so every instant is rendered with the
  zone designator \<open>Z\<close>.
\<close>

type_synonym Time = int
type_synonym Duration = int

definition Before :: "Time \<Rightarrow> Time \<Rightarrow> bool" where
  "Before t u = (t < u)"

definition Add :: "Time \<Rightarrow> Duration \<Rightarrow> Time" where
  "Add t d = t + d"

text \<open>\<open>t.Sub(u)\<close> saturates at the smallest and largest 64-bit duration.\<close>

definition Sub :: "Time \<Rightarrow> Time \<Rightarrow> Duration" where
  "Sub t u = max (- (2 ^ 63)) (min (2 ^ 63 - 1) (t - u))"

text \<open>The zero \<open>time.Time\<close> is 0001-01-01T00:00:00Z.\<close>

definition zero_Time :: Time where
  "zero_Time = - 62135596800 * 1000000000"

section \<open>The RFC 3339 layout of the time library\<close>

text \<open>
  The store writes instants with \<open>Format(time.RFC3339)\<close> and reads them back with
  \<open>time.Parse(time.RFC3339, _)\<close>. Both belong to Go's standard library, not to this
  repository; they are modelled here from the library's documented behaviour: the
  proleptic Gregorian calendar, the layout \<open>2006-01-02T15:04:05Z07:00\<close> (whole
  seconds, no fraction on output), and the parser's range checks.
\<close>

definition isLeap :: "int \<Rightarrow> bool" where
  "isLeap year = (year mod 4 = 0 \<and> (year mod 100 \<noteq> 0 \<or> year mod 400 = 0))"

definition daysBefore :: "int \<Rightarrow> int" where
  "daysBefore month =
     [0, 31, 59, 90, 120, 151, 181, 212, 243, 273, 304, 334, 365] ! nat month"




text \<open>Month and day of the month from the year and the day of the year (from 0).\<close>

definition month_day :: "int \<Rightarrow> int \<Rightarrow> int \<times> int" where
  "month_day year yday =
     (if isLeap year \<and> yday = 31 + 29 - 1 then (2, 29)
      else
        let day = (if isLeap year \<and> yday > 31 + 29 - 1 then yday - 1 else yday);
            month = day div 31;
            end = daysBefore (month + 1)
        in if day \<ge> end then (month + 2, day - end + 1)
           else (month + 1, day - daysBefore month + 1))"

text \<open>Year, month and day of a day number counted from 1970-01-01.\<close>

definition civil :: "int \<Rightarrow> int \<times> int \<times> int" where
  "civil z =
     (let d0 = z + 719162;
          n400 = d0 div 146097; d1 = d0 mod 146097;
          n100 = min 3 (d1 div 36524); d2 = d1 - 36524 * n100;
          n4 = d2 div 1461; d3 = d2 mod 1461;
          n1 = min 3 (d3 div 365); yday = d3 - 365 * n1;
          year = 400 * n400 + 100 * n100 + 4 * n4 + n1 + 1;
          (month, day) = month_day year yday
      in (year, month, day))"

definition digit :: "nat \<Rightarrow> char" where
  "digit d = ''0123456789'' ! (d mod 10)"

fun digits :: "nat \<Rightarrow> string" where
  "digits n = (if n < 10 then [digit n] else digits (n div 10) @ [digit n])"

declare digits.simps [simp del]

text \<open>\<open>appendInt\<close>: a sign for a negative number, then at least \<open>width\<close> digits.\<close>

definition appendInt :: "int \<Rightarrow> nat \<Rightarrow> string" where
  "appendInt x width =
     (let ds = digits (nat \<bar>x\<bar>)
      in (if x < 0 then ''-'' else []) @ replicate (width - length ds) (CHR ''0'') @ ds)"

definition format_RFC3339 :: "Time \<Rightarrow> string" where
  "format_RFC3339 t =
     (let secs = t div 1000000000;
          sod = secs mod 86400;
          (year, month, day) = civil (secs div 86400)
      in appendInt year 4 @ ''-'' @ appendInt month 2 @ ''-'' @ appendInt day 2 @ ''T''
         @ appendInt (sod div 3600) 2 @ '':'' @ appendInt (sod div 60 mod 60) 2 @ '':''
         @ appendInt (sod mod 60) 2 @ ''Z'')"

definition isDigit :: "char \<Rightarrow> bool" where
  "isDigit c = (48 \<le> (of_char c :: nat) \<and> (of_char c :: nat) \<le> 57)"







section \<open>The keyspace and its command log\<close>

record Value =
  Data :: string
  ExpiresAt :: Time

definition zero_Value :: Value where
  "zero_Value = \<lparr>Data = [], ExpiresAt = zero_Time\<rparr>"

text \<open>
  The store holds the map and the log file. The file is its content; it is opened in
  append mode, so every write lands at the end.
\<close>

record Store =
  data :: "string \<rightharpoonup> Value"
  log :: string

text \<open>
  The outcome of one \<open>WriteString\<close> on the log file comes from the environment: the
  whole text is written, or the write fails after some of its bytes.
\<close>

datatype io_result = Written | Failed nat

definition WriteString :: "io_result \<Rightarrow> string \<Rightarrow> string \<Rightarrow> string \<times> bool" where
  "WriteString io txt f =
     (case io of
        Written \<Rightarrow> (f @ txt, False)
      | Failed n \<Rightarrow> (f @ take n txt, True))"

definition set_record :: "Time \<Rightarrow> string \<Rightarrow> Value \<Rightarrow> string" where
  "set_record now key value =
     format_RFC3339 now @ '' SET '' @ key @ '' '' @ format_RFC3339 (ExpiresAt value)
     @ '' '' @ Data value @ [CHR 0x0A]"

definition delete_record :: "Time \<Rightarrow> string \<Rightarrow> string" where
  "delete_record now key = format_RFC3339 now @ '' DELETE '' @ key @ [CHR 0x0A]"

text \<open>
  \<open>Store.Set\<close>: the record is appended first; when the write reports an error the
  function returns before the map is touched. \<open>now\<close> is the clock reading that
  stamps the record.
\<close>

definition Store_Set :: "Time \<Rightarrow> io_result \<Rightarrow> string \<Rightarrow> Value \<Rightarrow> Store \<Rightarrow> Store" where
  "Store_Set now io key value s =
     (let (f, err) = WriteString io (set_record now key value) (log s)
      in if err then s\<lparr>log := f\<rparr>
         else s\<lparr>data := (data s)(key \<mapsto> value), log := f\<rparr>)"

text \<open>
  \<open>Store.Get\<close>: a missing key reads as the zero value with \<open>ok = false\<close>; the expiry
  test is made on whatever was read.
\<close>

definition Store_Get :: "Time \<Rightarrow> string \<Rightarrow> Store \<Rightarrow> Value \<times> bool" where
  "Store_Get now key s =
     (let (val, ok) = (case data s key of None \<Rightarrow> (zero_Value, False) | Some v \<Rightarrow> (v, True))
      in if Before (ExpiresAt val) now then (zero_Value, False) else (val, ok))"

definition Store_Delete :: "Time \<Rightarrow> io_result \<Rightarrow> string \<Rightarrow> Store \<Rightarrow> Store" where
  "Store_Delete now io key s =
     (let (f, err) = WriteString io (delete_record now key) (log s)
      in if err then s\<lparr>log := f\<rparr>
         else s\<lparr>data := (data s)(key := None), log := f\<rparr>)"

text \<open>
  \<open>Store.TTL\<close> reads the clock twice: for the expiry test and for \<open>time.Until\<close>.
\<close>

definition Store_TTL :: "Time \<Rightarrow> Time \<Rightarrow> string \<Rightarrow> Store \<Rightarrow> Duration \<times> bool" where
  "Store_TTL now now' key s =
     (case data s key of
        None \<Rightarrow> (0, False)
      | Some val \<Rightarrow>
          if Before (ExpiresAt val) now then (0, False)
          else (Sub (ExpiresAt val) now', True))"

text \<open>
  \<open>Store.BackgroundCleaner\<close>: one pass of the sweeper. Go ranges over a map in an
  order of its own choosing; \<open>ks\<close> is the order of that pass. \<open>now\<close> is read once
  before the loop; \<open>stamp key\<close> is the later reading that stamps the record of
  \<open>key\<close>, and \<open>io key\<close> the outcome of writing it. The entry is deleted before the
  record is written, and a failed write only moves on to the next key.
\<close>

fun clean_loop ::
  "Time \<Rightarrow> (string \<Rightarrow> Time) \<Rightarrow> (string \<Rightarrow> io_result) \<Rightarrow> string list \<Rightarrow> Store \<Rightarrow> Store" where
  "clean_loop now stamp io [] s = s"
| "clean_loop now stamp io (key # ks) s =
     (case data s key of
        None \<Rightarrow> clean_loop now stamp io ks s
      | Some val \<Rightarrow>
          if Before (ExpiresAt val) now
          then let (f, err) = WriteString (io key) (delete_record (stamp key) key) (log s)
               in clean_loop now stamp io ks (s\<lparr>data := (data s)(key := None), log := f\<rparr>)
          else clean_loop now stamp io ks s)"

definition BackgroundCleaner ::
  "Time \<Rightarrow> (string \<Rightarrow> Time) \<Rightarrow> (string \<Rightarrow> io_result) \<Rightarrow> string list \<Rightarrow> Store \<Rightarrow> Store" where
  "BackgroundCleaner now stamp io ks s = clean_loop now stamp io ks s"




subsection \<open>Replay of the command log\<close>

text \<open>
  \<open>strings.Split\<close> with a separator of one byte, and \<open>strings.Join\<close>.
\<close>

fun Split :: "string \<Rightarrow> char \<Rightarrow> string list" where
  "Split [] sep = [[]]"
| "Split (c # cs) sep =
     (if c = sep then [] # Split cs sep
      else (case Split cs sep of [] \<Rightarrow> [[c]] | f # fs \<Rightarrow> (c # f) # fs))"


text \<open>
  \<open>bufio.Scanner\<close> with its default line splitter: a line ends at a line feed, one
  trailing carriage return is dropped, a non-empty rest after the last line feed is a
  line too, and scanning stops for good at a line that does not fit the buffer of
  \<open>MaxScanTokenSize\<close> bytes together with its line feed. The first argument holds the
  bytes of the line being read.
\<close>

definition MaxScanTokenSize :: nat where
  "MaxScanTokenSize = 64 * 1024"

definition dropCR :: "string \<Rightarrow> string" where
  "dropCR l = (if l \<noteq> [] \<and> last l = CHR 0x0D then butlast l else l)"

fun scan_lines :: "string \<Rightarrow> string \<Rightarrow> string list" where
  "scan_lines tok [] =
     (if tok = [] \<or> MaxScanTokenSize \<le> length tok then [] else [dropCR tok])"
| "scan_lines tok (c # cs) =
     (if MaxScanTokenSize \<le> length tok then []
      else if c = CHR 0x0A then dropCR tok # scan_lines [] cs
      else scan_lines (tok @ [c]) cs)"



section \<open>The consensus library, as the engine uses it\<close>

text \<open>
  The engine holds a handle of the consensus library. What the engine reads from it is
  the node's state, the leader's address (empty when unknown) and the servers of the
  latest configuration; what it hands to it are the payloads of \<open>Apply\<close>, kept here in
  the order of submission. The library belongs to another repository: whether a
  submission commits, and whether a call of the library reports an error, are inputs
  of the functions below. An error is represented by its message, \<open>None\<close> is Go's
  \<open>nil\<close>.
\<close>

datatype RaftState = Follower | Candidate | Leader | Shutdown

datatype ServerSuffrage = Voter | Nonvoter | Staging

record raft_Server =
  Suffrage :: ServerSuffrage
  ID :: string
  Address :: string

record Raft =
  state :: RaftState
  leader :: string
  servers :: "raft_Server list"
  submitted :: "string list"

definition Raft_Apply :: "string \<Rightarrow> Raft \<Rightarrow> Raft" where
  "Raft_Apply dat r = r\<lparr>submitted := submitted r @ [dat]\<rparr>"

text \<open>
  The configuration after a committed \<open>AddVoter\<close>: a server with the same identifier is
  replaced, otherwise the new voter is appended.
\<close>

fun add_voter :: "raft_Server \<Rightarrow> raft_Server list \<Rightarrow> raft_Server list" where
  "add_voter new [] = [new]"
| "add_voter new (srv # rest) =
     (if ID srv = ID new then new # rest else srv # add_voter new rest)"

definition Raft_AddVoter :: "string \<Rightarrow> string \<Rightarrow> Raft \<Rightarrow> Raft" where
  "Raft_AddVoter nodeID addr r =
     r\<lparr>servers := add_voter \<lparr>Suffrage = Voter, ID = nodeID, Address = addr\<rparr> (servers r)\<rparr>"

section \<open>The replication engine\<close>

text \<open>The command of the \<open>raft\<close> package, the payload of one entry of the consensus log.\<close>

record raft_Command =
  raft_Op :: string
  raft_Key :: string
  raft_Value :: string
  raft_ExpiresAt :: Time

text \<open>
  Of the engine's fields the functions below use the store and the library's handle.
\<close>

record RaftStore =
  store :: Store
  raft :: Raft

definition RaftStore_Get :: "Time \<Rightarrow> string \<Rightarrow> RaftStore \<Rightarrow> Value \<times> bool" where
  "RaftStore_Get now key rs = Store_Get now key (store rs)"

text \<open>
  \<open>RaftStore.Set\<close>. \<open>marshal\<close> is \<open>json.Marshal\<close> on a command (\<open>Inl\<close> its error) and
  \<open>commit\<close> what the future of \<open>Apply\<close> reports. The library applies a committed entry
  through \<open>FSM.Apply\<close>, which is \<open>FSM_Apply\<close> below.
\<close>

definition RaftStore_Set ::
  "(raft_Command \<Rightarrow> string + string) \<Rightarrow> string option \<Rightarrow> string \<Rightarrow> Value \<Rightarrow> RaftStore
   \<Rightarrow> string option \<times> RaftStore" where
  "RaftStore_Set marshal commit key value rs =
     (if state (raft rs) \<noteq> Leader then (Some ''not the leader'', rs)
      else
        let cmd = \<lparr>raft_Op = ''SET'', raft_Key = key, raft_Value = Data value,
                   raft_ExpiresAt = ExpiresAt value\<rparr>
        in case marshal cmd of
             Inl err \<Rightarrow> (Some err, rs)
           | Inr dat \<Rightarrow> (commit, rs\<lparr>raft := Raft_Apply dat (raft rs)\<rparr>))"

definition RaftStore_Delete ::
  "(raft_Command \<Rightarrow> string + string) \<Rightarrow> string option \<Rightarrow> string \<Rightarrow> RaftStore
   \<Rightarrow> string option \<times> RaftStore" where
  "RaftStore_Delete marshal commit key rs =
     (if state (raft rs) \<noteq> Leader then (Some ''not the leader'', rs)
      else
        let cmd = \<lparr>raft_Op = ''DELETE'', raft_Key = key, raft_Value = [],
                   raft_ExpiresAt = zero_Time\<rparr>
        in case marshal cmd of
             Inl err \<Rightarrow> (Some err, rs)
           | Inr dat \<Rightarrow> (commit, rs\<lparr>raft := Raft_Apply dat (raft rs)\<rparr>))"

definition RaftStore_TTL :: "Time \<Rightarrow> Time \<Rightarrow> string \<Rightarrow> RaftStore \<Rightarrow> Duration \<times> bool" where
  "RaftStore_TTL now now' key rs = Store_TTL now now' key (store rs)"

definition IsLeader :: "RaftStore \<Rightarrow> bool" where
  "IsLeader rs = (state (raft rs) = Leader)"

definition GetLeader :: "RaftStore \<Rightarrow> string" where
  "GetLeader rs = (let a = leader (raft rs) in if a = [] then [] else a)"

text \<open>
  \<open>RaftStore.Join\<close>. \<open>config_err\<close> is the error of the configuration future and
  \<open>add_err\<close> that of the future of \<open>AddVoter\<close>. The loop returns at the first server
  that has the identifier or the address.
\<close>

fun already_joined :: "string \<Rightarrow> string \<Rightarrow> raft_Server list \<Rightarrow> bool" where
  "already_joined nodeID addr [] = False"
| "already_joined nodeID addr (srv # rest) =
     (if ID srv = nodeID \<or> Address srv = addr then True
      else already_joined nodeID addr rest)"

definition RaftStore_Join ::
  "string option \<Rightarrow> string option \<Rightarrow> string \<Rightarrow> string \<Rightarrow> RaftStore
   \<Rightarrow> string option \<times> RaftStore" where
  "RaftStore_Join config_err add_err nodeID addr rs =
     (if \<not> IsLeader rs then (Some ''not the leader'', rs)
      else
        case config_err of
          Some err \<Rightarrow> (Some err, rs)
        | None \<Rightarrow>
            if already_joined nodeID addr (servers (raft rs)) then (None, rs)
            else
              (case add_err of
                 Some err \<Rightarrow> (Some err, rs)
               | None \<Rightarrow> (None, rs\<lparr>raft := Raft_AddVoter nodeID addr (raft rs)\<rparr>)))"

subsection \<open>The state machine and its snapshots\<close>

text \<open>
  \<open>FSM.Apply\<close>: \<open>unmarshal\<close> is \<open>json.Unmarshal\<close> into a command. The result is the
  error it returns, if any.
\<close>

definition FSM_Apply ::
  "(string \<Rightarrow> string + raft_Command) \<Rightarrow> Time \<Rightarrow> io_result \<Rightarrow> string \<Rightarrow> Store
   \<Rightarrow> string option \<times> Store" where
  "FSM_Apply unmarshal now io dat s =
     (case unmarshal dat of
        Inl err \<Rightarrow> (Some err, s)
      | Inr cmd \<Rightarrow>
          if raft_Op cmd = ''SET'' then
            (None, Store_Set now io (raft_Key cmd)
                     \<lparr>Data = raft_Value cmd, ExpiresAt = raft_ExpiresAt cmd\<rparr> s)
          else if raft_Op cmd = ''DELETE'' then (None, Store_Delete now io (raft_Key cmd) s)
          else (None, s))"







section \<open>The request router\<close>

record Command =
  Op :: string
  Key :: string
  cmd_Value :: string
  ExpiresIn :: Duration

record Response =
  Status :: string
  Message :: string
  resp_Value :: string
  TTL :: Duration

definition response :: "string \<Rightarrow> string \<Rightarrow> Response" where
  "response status message =
     \<lparr>Status = status, Message = message, resp_Value = [], TTL = 0\<rparr>"

text \<open>
  \<open>strings.ToUpper\<close>, \<open>strings.HasPrefix\<close> and \<open>strings.Contains\<close>. \<open>ToUpper\<close> is
  modelled on the ASCII letters; bytes outside ASCII are left as they are.
\<close>

definition ToUpper :: "string \<Rightarrow> string" where
  "ToUpper s =
     map (\<lambda>c. if 97 \<le> (of_char c :: nat) \<and> (of_char c :: nat) \<le> 122
               then char_of ((of_char c :: nat) - 32) else c) s"

fun HasPrefix :: "string \<Rightarrow> string \<Rightarrow> bool" where
  "HasPrefix s [] = True"
| "HasPrefix [] (p # ps) = False"
| "HasPrefix (c # cs) (p # ps) = (c = p \<and> HasPrefix cs ps)"

fun Contains :: "string \<Rightarrow> string \<Rightarrow> bool" where
  "Contains [] substr = (substr = [])"
| "Contains (c # cs) substr = (HasPrefix (c # cs) substr \<or> Contains cs substr)"

definition NewValue :: "Time \<Rightarrow> string \<Rightarrow> Duration \<Rightarrow> Value" where
  "NewValue now dat expiresAfter = \<lparr>Data = dat, ExpiresAt = Add now expiresAfter\<rparr>"

text \<open>
  \<open>Server.processCommand\<close>, the dispatch of the single-node server. \<open>clock i\<close> is the
  \<open>i\<close>-th reading of the clock while the request is served, \<open>io\<close> the outcome of the
  write to the log.
\<close>

definition Server_processCommand ::
  "(nat \<Rightarrow> Time) \<Rightarrow> io_result \<Rightarrow> Command \<Rightarrow> Store \<Rightarrow> Response \<times> Store" where
  "Server_processCommand clock io cmd s =
     (let op = ToUpper (Op cmd)
      in if op = ''SET'' then
           (if Key cmd = [] then (response ''error'' ''Key is required'', s)
            else
              let value = NewValue (clock 0) (cmd_Value cmd) (ExpiresIn cmd)
              in (response ''success'' [], Store_Set (clock 1) io (Key cmd) value s))
         else if op = ''GET'' then
           (if Key cmd = [] then (response ''error'' ''Key is required'', s)
            else
              let (value, exists) = Store_Get (clock 0) (Key cmd) s
              in if \<not> exists then (response ''error'' ''Key not found'', s)
                 else
                   let (ttl, _) = Store_TTL (clock 1) (clock 2) (Key cmd) s
                   in (\<lparr>Status = ''success'', Message = [], resp_Value = Data value, TTL = ttl\<rparr>, s))
         else if op = ''DELETE'' then
           (if Key cmd = [] then (response ''error'' ''Key is required'', s)
            else (response ''success'' [], Store_Delete (clock 0) io (Key cmd) s))
         else if op = ''TTL'' then
           (if Key cmd = [] then (response ''error'' ''Key is required'', s)
            else
              let (ttl, exists) = Store_TTL (clock 0) (clock 1) (Key cmd) s
              in if \<not> exists then (response ''error'' ''Key not found or expired'', s)
                 else (\<lparr>Status = ''success'', Message = [], resp_Value = [], TTL = ttl\<rparr>, s))
         else (response ''error'' ''Unknown command'', s))"

text \<open>
  How the clustered router answers the error of a mutation.
\<close>

definition mutation_response :: "string option \<Rightarrow> RaftStore \<Rightarrow> Response" where
  "mutation_response err rs =
     (case err of
        Some e \<Rightarrow>
          if Contains e ''not the leader''
          then response ''redirect'' (''Not the leader, try: '' @ GetLeader rs)
          else response ''error'' e
      | None \<Rightarrow> response ''success'' [])"

text \<open>
  \<open>RaftServer.processCommand\<close>, the dispatch of the clustered server. \<open>marshal\<close> and
  \<open>commit\<close> are the inputs of the engine's mutation.
\<close>

definition RaftServer_processCommand ::
  "(nat \<Rightarrow> Time) \<Rightarrow> (raft_Command \<Rightarrow> string + string) \<Rightarrow> string option \<Rightarrow> Command \<Rightarrow> RaftStore
   \<Rightarrow> Response \<times> RaftStore" where
  "RaftServer_processCommand clock marshal commit cmd rs =
     (let op = ToUpper (Op cmd)
      in if op = ''SET'' then
           (if Key cmd = [] then (response ''error'' ''Key is required'', rs)
            else
              let value = \<lparr>Data = cmd_Value cmd, ExpiresAt = Add (clock 0) (ExpiresIn cmd)\<rparr>;
                  (err, rs') = RaftStore_Set marshal commit (Key cmd) value rs
              in (mutation_response err rs', rs'))
         else if op = ''GET'' then
           (if Key cmd = [] then (response ''error'' ''Key is required'', rs)
            else
              let (value, exists) = RaftStore_Get (clock 0) (Key cmd) rs
              in if \<not> exists then (response ''error'' ''Key not found'', rs)
                 else
                   let (ttl, _) = RaftStore_TTL (clock 1) (clock 2) (Key cmd) rs
                   in (\<lparr>Status = ''success'', Message = [], resp_Value = Data value, TTL = ttl\<rparr>, rs))
         else if op = ''DELETE'' then
           (if Key cmd = [] then (response ''error'' ''Key is required'', rs)
            else
              let (err, rs') = RaftStore_Delete marshal commit (Key cmd) rs
              in (mutation_response err rs', rs'))
         else if op = ''TTL'' then
           (if Key cmd = [] then (response ''error'' ''Key is required'', rs)
            else
              let (ttl, exists) = RaftStore_TTL (clock 0) (clock 1) (Key cmd) rs
              in if \<not> exists then (response ''error'' ''Key not found or expired'', rs)
                 else (\<lparr>Status = ''success'', Message = [], resp_Value = [], TTL = ttl\<rparr>, rs))
         else if op = ''STATUS'' then
           (let isLeader = IsLeader rs;
                status = (if isLeader then ''leader'' else ''follower'')
            in (response ''success'' (''Node status: '' @ status), rs))
         else (response ''error'' ''Unknown command'', rs))"

section \<open>Sequences of calls on one store\<close>

text \<open>
  A call of \<open>Set\<close> or \<open>Delete\<close>, or one pass of the sweeper, each with the inputs the
  environment gives it.
\<close>

datatype store_op =
    OpSet Time io_result string Value
  | OpDelete Time io_result string
  | OpSweep Time "string \<Rightarrow> Time" "string \<Rightarrow> io_result" "string list"

fun apply_op :: "store_op \<Rightarrow> Store \<Rightarrow> Store" where
  "apply_op (OpSet now io key value) s = Store_Set now io key value s"
| "apply_op (OpDelete now io key) s = Store_Delete now io key s"
| "apply_op (OpSweep now stamp io ks) s = BackgroundCleaner now stamp io ks s"

text \<open>
  A call that is neither a \<open>Set\<close> nor a \<open>Delete\<close> of the key \<open>k\<close>; a pass of the sweeper
  counts when its clock reading is not later than \<open>t\<close>.
\<close>

fun spares :: "string \<Rightarrow> Time \<Rightarrow> store_op \<Rightarrow> bool" where
  "spares k t (OpSet now io key value) = (key \<noteq> k)"
| "spares k t (OpDelete now io key) = (key \<noteq> k)"
| "spares k t (OpSweep now stamp io ks) = (now \<le> t)"

text \<open>The entries a pass of the sweeper that reads \<open>now\<close> removes.\<close>

definition expired :: "Time \<Rightarrow> Store \<Rightarrow> string \<Rightarrow> bool" where
  "expired now s k = (case data s k of None \<Rightarrow> False | Some v \<Rightarrow> ExpiresAt v < now)"








definition fresh_Store :: Store where
  "fresh_Store = \<lparr>data = Map.empty, log = []\<rparr>"

section \<open>Properties of the keyspace\<close>

lemma Store_Set_data:
  "data (Store_Set now io key v s) = (if io = Written then (data s)(key \<mapsto> v) else data s)"
  by (cases io) (simp_all add: Store_Set_def WriteString_def)

lemma Store_Delete_data:
  "data (Store_Delete now io key s) = (if io = Written then (data s)(key := None) else data s)"
  by (cases io) (simp_all add: Store_Delete_def WriteString_def)

lemma Store_Get_Some:
  "data s k = Some v \<Longrightarrow>
   Store_Get now k s = (if ExpiresAt v < now then (zero_Value, False) else (v, True))"
  by (simp add: Store_Get_def Before_def)

lemma clean_loop_data:
  "data (clean_loop now stamp io ks s) k =
     (case data s k of None \<Rightarrow> None
      | Some v \<Rightarrow> if k \<in> set ks \<and> ExpiresAt v < now then None else Some v)"
proof (induction ks arbitrary: s)
  case Nil
  show ?case by (simp split: option.split)
next
  case (Cons key ks)
  show ?case
    by (auto simp: Cons.IH Before_def split: option.split prod.split)
qed

lemma apply_op_spares:
  "spares k t op \<Longrightarrow> data s k = Some v \<Longrightarrow> t < ExpiresAt v \<Longrightarrow>
   data (apply_op op s) k = Some v"
  by (cases op)
     (auto simp: Store_Set_data Store_Delete_data BackgroundCleaner_def clean_loop_data)

lemma fold_apply_op_spares:
  "\<forall>op \<in> set ops. spares k t op \<Longrightarrow> data s k = Some v \<Longrightarrow> t < ExpiresAt v
   \<Longrightarrow> data (fold apply_op ops s) k = Some v"
proof (induction ops arbitrary: s)
  case Nil
  then show ?case by simp
next
  case (Cons a ops)
  have "data (apply_op a s) k = Some v"
    using Cons.prems by (intro apply_op_spares) simp_all
  then show ?case
    using Cons.prems by (simp add: Cons.IH)
qed

text \<open>
  C1. After \<open>Set(k, v)\<close> whose append succeeded, \<open>Get(k)\<close> at any instant \<open>t\<close> before
  \<open>v\<close>'s expiry returns \<open>v\<close> with \<open>present = true\<close>, whatever calls came in between, as
  long as none of them is a \<open>Set\<close> or \<open>Delete\<close> of \<open>k\<close> (passes of the sweeper up to
  \<open>t\<close> included, and appends of the other calls failing or not).
\<close>

theorem Set_then_Get:
  assumes "t < ExpiresAt v" and "\<forall>op \<in> set ops. spares k t op"
  shows "Store_Get t k (fold apply_op ops (Store_Set now Written k v s)) = (v, True)"
proof -
  have "data (Store_Set now Written k v s) k = Some v"
    by (simp add: Store_Set_data)
  with assms have "data (fold apply_op ops (Store_Set now Written k v s)) k = Some v"
    by (intro fold_apply_op_spares)
  with assms(1) show ?thesis
    by (simp add: Store_Get_Some)
qed

theorem Set_then_Get_witness:
  "(5 :: Time) < ExpiresAt \<lparr>Data = ''v'', ExpiresAt = 10\<rparr>
   \<and> Store_Get 5 ''k''
       (fold apply_op
          [OpSet 1 Written ''other'' \<lparr>Data = ''w'', ExpiresAt = 2\<rparr>,
           OpDelete 2 (Failed 3) ''gone'',
           OpSweep 4 (\<lambda>key. 4) (\<lambda>key. Written) [''other'', ''k'']]
          (Store_Set 0 Written ''k'' \<lparr>Data = ''v'', ExpiresAt = 10\<rparr> fresh_Store))
     = (\<lparr>Data = ''v'', ExpiresAt = 10\<rparr>, True)"
  using Set_then_Get [of 5 "\<lparr>Data = ''v'', ExpiresAt = 10\<rparr>"
      "[OpSet 1 Written ''other'' \<lparr>Data = ''w'', ExpiresAt = 2\<rparr>,
        OpDelete 2 (Failed 3) ''gone'',
        OpSweep 4 (\<lambda>key. 4) (\<lambda>key. Written) [''other'', ''k'']]"
      "''k''" 0 fresh_Store]
  by simp

text \<open>
  C4, as the code has it. \<open>Get(k)\<close> on an entry whose stored expiry is strictly before
  the clock reading returns the zero value with \<open>present = false\<close>, while the entry is
  still in the map. The test is \<open>Before\<close>: at \<open>expires_at = now\<close> the entry is still
  returned, which the counterexample shows.
\<close>

theorem Get_expired_absent:
  "data s k = Some v \<Longrightarrow> ExpiresAt v < now \<Longrightarrow> Store_Get now k s = (zero_Value, False)"
  by (simp add: Store_Get_Some)

theorem Get_expired_absent_witness:
  "data \<lparr>data = [''k'' \<mapsto> \<lparr>Data = ''v'', ExpiresAt = 5\<rparr>], log = []\<rparr> ''k''
     = Some \<lparr>Data = ''v'', ExpiresAt = 5\<rparr>
   \<and> ExpiresAt \<lparr>Data = ''v'', ExpiresAt = 5\<rparr> < 6
   \<and> Store_Get 6 ''k'' \<lparr>data = [''k'' \<mapsto> \<lparr>Data = ''v'', ExpiresAt = 5\<rparr>], log = []\<rparr>
     = (zero_Value, False)"
  using Get_expired_absent
    [of "\<lparr>data = [''k'' \<mapsto> \<lparr>Data = ''v'', ExpiresAt = 5\<rparr>], log = []\<rparr>" "''k''"
        "\<lparr>Data = ''v'', ExpiresAt = 5\<rparr>" 6]
  by simp

theorem Get_at_expiry_counterexample:
  "data \<lparr>data = [''k'' \<mapsto> \<lparr>Data = ''v'', ExpiresAt = 5\<rparr>], log = []\<rparr> ''k''
     = Some \<lparr>Data = ''v'', ExpiresAt = 5\<rparr>
   \<and> ExpiresAt \<lparr>Data = ''v'', ExpiresAt = 5\<rparr> \<le> 5
   \<and> Store_Get 5 ''k'' \<lparr>data = [''k'' \<mapsto> \<lparr>Data = ''v'', ExpiresAt = 5\<rparr>], log = []\<rparr>
     = (\<lparr>Data = ''v'', ExpiresAt = 5\<rparr>, True)"
  by (simp add: Store_Get_def Before_def)

text \<open>
  C6, as the code has it. When the append of \<open>Set(k, v)\<close> fails, after any number of
  bytes, the map is left as it was: the entry is not installed, and the log keeps the
  bytes that were written. \<open>Delete\<close> leaves the map as it was in the same way.
\<close>

theorem Set_failed_write:
  "data (Store_Set now (Failed n) k v s) = data s
   \<and> log (Store_Set now (Failed n) k v s) = log s @ take n (set_record now k v)
   \<and> data (Store_Delete now (Failed n) k s) = data s"
  by (simp add: Store_Set_def Store_Delete_def WriteString_def)

theorem Set_failed_write_counterexample:
  "data (Store_Set 0 (Failed 0) ''k'' \<lparr>Data = ''v'', ExpiresAt = 60000000000\<rparr>
           \<lparr>data = Map.empty, log = []\<rparr>) ''k'' = None"
  by (simp add: Store_Set_def WriteString_def)

text \<open>
  C7. \<open>Delete(k)\<close> on a store without \<open>k\<close> leaves the map as it was, whatever the
  outcome of the append, and a successful append adds the DELETE record all the same.
  A second \<open>Delete(k)\<close> after a successful one changes nothing in the map; after a
  failed one it acts as the only one. So two calls in a row leave the map that one call
  leaves.
\<close>

theorem Delete_absent_twice:
  "(data s k = None \<longrightarrow>
      data (Store_Delete now io k s) = data s
      \<and> log (Store_Delete now Written k s) = log s @ delete_record now k)
   \<and> data (Store_Delete now' io' k (Store_Delete now Written k s))
       = data (Store_Delete now Written k s)
   \<and> data (Store_Delete now' io' k (Store_Delete now (Failed n) k s))
       = data (Store_Delete now' io' k s)"
proof -
  have absent: "data s k = None \<Longrightarrow> (data s)(k := None) = data s"
    by (rule ext) simp
  have rec: "log (Store_Delete now Written k s) = log s @ delete_record now k"
    by (simp add: Store_Delete_def WriteString_def)
  show ?thesis
    by (simp add: Store_Delete_data absent rec)
qed

theorem Delete_absent_twice_witness:
  "data \<lparr>data = Map.empty, log = []\<rparr> ''k'' = None
   \<and> data (Store_Delete 0 Written ''k'' \<lparr>data = Map.empty, log = []\<rparr>) = Map.empty
   \<and> log (Store_Delete 0 Written ''k'' \<lparr>data = Map.empty, log = []\<rparr>)
       = ''1970-01-01T00:00:00Z DELETE k'' @ [CHR 0x0A]"
proof -
  have r: "delete_record 0 ''k'' = ''1970-01-01T00:00:00Z DELETE k'' @ [CHR 0x0A]"
    by code_simp
  show ?thesis
    using Delete_absent_twice [of "\<lparr>data = Map.empty, log = []\<rparr>" "''k''" 0 Written]
    by (simp add: r)
qed

lemma clean_loop_log:
  "distinct ks \<Longrightarrow> \<forall>k \<in> set ks. io k = Written \<Longrightarrow>
   log (clean_loop now stamp io ks s)
     = log s @ concat (map (\<lambda>k. delete_record (stamp k) k) (filter (expired now s) ks))"
proof (induction ks arbitrary: s)
  case Nil
  show ?case by simp
next
  case (Cons key ks)
  have io: "io key = Written" and ios: "\<forall>k \<in> set ks. io k = Written"
    and d: "distinct ks" and fresh: "key \<notin> set ks"
    using Cons.prems by simp_all
  show ?case
  proof (cases "expired now s key")
    case False
    then show ?thesis
      using Cons.IH [OF d ios, of s]
      by (auto simp: expired_def Before_def split: option.splits)
  next
    case True
    then obtain v where v: "data s key = Some v" "ExpiresAt v < now"
      by (auto simp: expired_def split: option.splits)
    let ?s = "s\<lparr>data := (data s)(key := None), log := log s @ delete_record (stamp key) key\<rparr>"
    have same: "filter (expired now ?s) ks = filter (expired now s) ks"
      using fresh by (intro filter_cong) (auto simp: expired_def)
    have "clean_loop now stamp io (key # ks) s = clean_loop now stamp io ks ?s"
      using v io by (simp add: Before_def WriteString_def)
    then show ?thesis
      using Cons.IH [OF d ios, of ?s] True by (simp add: same)
  qed
qed

text \<open>
  C8. One pass of the sweeper that reads \<open>now\<close> and visits the keys of the map once
  each: the entries with \<open>expires_at < now\<close> are gone from the map, every other entry
  is as it was, and, the appends succeeding, the log has grown by exactly one DELETE
  record for each removed key, in the order of the pass.
\<close>

theorem BackgroundCleaner_pass:
  assumes "distinct ks" and "set ks = dom (data s)" and "\<forall>k \<in> set ks. io k = Written"
  shows "data (BackgroundCleaner now stamp io ks s)
           = (\<lambda>k. if expired now s k then None else data s k)
         \<and> log (BackgroundCleaner now stamp io ks s)
           = log s @ concat (map (\<lambda>k. delete_record (stamp k) k) (filter (expired now s) ks))"
proof
  show "data (BackgroundCleaner now stamp io ks s)
          = (\<lambda>k. if expired now s k then None else data s k)"
  proof
    fix k
    show "data (BackgroundCleaner now stamp io ks s) k
            = (if expired now s k then None else data s k)"
      using assms(2)
      by (auto simp: BackgroundCleaner_def clean_loop_data expired_def split: option.splits)
  qed
  show "log (BackgroundCleaner now stamp io ks s)
          = log s @ concat (map (\<lambda>k. delete_record (stamp k) k) (filter (expired now s) ks))"
    using assms(1,3) by (simp add: BackgroundCleaner_def clean_loop_log)
qed

theorem BackgroundCleaner_pass_witness:
  "distinct [''b'', ''a'']
   \<and> data (BackgroundCleaner 10 (\<lambda>k. 10000000000) (\<lambda>k. Written) [''b'', ''a'']
        \<lparr>data = [''a'' \<mapsto> \<lparr>Data = ''1'', ExpiresAt = 5\<rparr>,
                 ''b'' \<mapsto> \<lparr>Data = ''2'', ExpiresAt = 50\<rparr>], log = []\<rparr>) ''a'' = None
   \<and> data (BackgroundCleaner 10 (\<lambda>k. 10000000000) (\<lambda>k. Written) [''b'', ''a'']
        \<lparr>data = [''a'' \<mapsto> \<lparr>Data = ''1'', ExpiresAt = 5\<rparr>,
                 ''b'' \<mapsto> \<lparr>Data = ''2'', ExpiresAt = 50\<rparr>], log = []\<rparr>) ''b''
       = Some \<lparr>Data = ''2'', ExpiresAt = 50\<rparr>
   \<and> log (BackgroundCleaner 10 (\<lambda>k. 10000000000) (\<lambda>k. Written) [''b'', ''a'']
        \<lparr>data = [''a'' \<mapsto> \<lparr>Data = ''1'', ExpiresAt = 5\<rparr>,
                 ''b'' \<mapsto> \<lparr>Data = ''2'', ExpiresAt = 50\<rparr>], log = []\<rparr>)
       = ''1970-01-01T00:00:10Z DELETE a'' @ [CHR 0x0A]"
proof -
  have r: "delete_record 10000000000 ''a'' = ''1970-01-01T00:00:10Z DELETE a'' @ [CHR 0x0A]"
    by code_simp
  show ?thesis
    using BackgroundCleaner_pass [of "[''b'', ''a'']"
        "\<lparr>data = [''a'' \<mapsto> \<lparr>Data = ''1'', ExpiresAt = 5\<rparr>,
                 ''b'' \<mapsto> \<lparr>Data = ''2'', ExpiresAt = 50\<rparr>], log = []\<rparr>"
        "\<lambda>k. Written" 10 "\<lambda>k. 10000000000"]
    by (simp add: r expired_def insert_commute)
qed

section \<open>Properties of the replication engine\<close>

lemma already_joined_iff:
  "already_joined nodeID addr srvs = (\<exists>srv \<in> set srvs. ID srv = nodeID \<or> Address srv = addr)"
  by (induction srvs) auto

text \<open>
  C10. \<open>Join(nodeID, addr)\<close> on the leader, the configuration read without error: when
  some server of the configuration has the identifier \<open>nodeID\<close> or the address
  \<open>addr\<close>, whatever its other component, \<open>Join\<close> returns no error and the engine,
  its configuration included, is as it was. Whenever \<open>Join\<close> changes anything, no
  server had the identifier or the address, and the change is the added voter.
\<close>

theorem Join_known_member:
  "(IsLeader rs \<and> config_err = None
      \<and> (\<exists>srv \<in> set (servers (raft rs)). ID srv = nodeID \<or> Address srv = addr)
      \<longrightarrow> RaftStore_Join config_err add_err nodeID addr rs = (None, rs))
   \<and> (snd (RaftStore_Join config_err add_err nodeID addr rs) \<noteq> rs
      \<longrightarrow> (\<forall>srv \<in> set (servers (raft rs)). ID srv \<noteq> nodeID \<and> Address srv \<noteq> addr)
          \<and> RaftStore_Join config_err add_err nodeID addr rs
              = (None, rs\<lparr>raft := Raft_AddVoter nodeID addr (raft rs)\<rparr>))"
  by (auto simp: RaftStore_Join_def already_joined_iff split: option.splits)

theorem Join_known_member_witness:
  "IsLeader \<lparr>store = fresh_Store,
      raft = \<lparr>state = Leader, leader = ''localhost:7000'',
               servers = [\<lparr>Suffrage = Voter, ID = ''node1'', Address = ''localhost:7000''\<rparr>],
               submitted = []\<rparr>\<rparr>
   \<and> RaftStore_Join None None ''node2'' ''localhost:7000''
       \<lparr>store = fresh_Store,
        raft = \<lparr>state = Leader, leader = ''localhost:7000'',
                 servers = [\<lparr>Suffrage = Voter, ID = ''node1'', Address = ''localhost:7000''\<rparr>],
                 submitted = []\<rparr>\<rparr>
     = (None, \<lparr>store = fresh_Store,
        raft = \<lparr>state = Leader, leader = ''localhost:7000'',
                 servers = [\<lparr>Suffrage = Voter, ID = ''node1'', Address = ''localhost:7000''\<rparr>],
                 submitted = []\<rparr>\<rparr>)
   \<and> snd (RaftStore_Join None None ''node2'' ''localhost:7001''
       \<lparr>store = fresh_Store,
        raft = \<lparr>state = Leader, leader = ''localhost:7000'',
                 servers = [\<lparr>Suffrage = Voter, ID = ''node1'', Address = ''localhost:7000''\<rparr>],
                 submitted = []\<rparr>\<rparr>)
     = \<lparr>store = fresh_Store,
        raft = \<lparr>state = Leader, leader = ''localhost:7000'',
                 servers = [\<lparr>Suffrage = Voter, ID = ''node1'', Address = ''localhost:7000''\<rparr>,
                            \<lparr>Suffrage = Voter, ID = ''node2'', Address = ''localhost:7001''\<rparr>],
                 submitted = []\<rparr>\<rparr>"
proof -
  let ?rs = "\<lparr>store = fresh_Store,
        raft = \<lparr>state = Leader, leader = ''localhost:7000'',
                 servers = [\<lparr>Suffrage = Voter, ID = ''node1'', Address = ''localhost:7000''\<rparr>],
                 submitted = []\<rparr>\<rparr>"
  have l: "IsLeader ?rs"
    by (simp add: IsLeader_def)
  have changed: "snd (RaftStore_Join None None ''node2'' ''localhost:7001'' ?rs) \<noteq> ?rs"
    by (simp add: RaftStore_Join_def l Raft_AddVoter_def)
  show ?thesis
    using l changed
      Join_known_member [of ?rs None "''node2''" "''localhost:7000''" None]
      Join_known_member [of ?rs None "''node2''" "''localhost:7001''" None]
    by (simp add: Raft_AddVoter_def)
qed

text \<open>
  C5. On a node whose state is not \<open>Leader\<close>, \<open>Set\<close> and \<open>Delete\<close> of the engine return
  the error \<open>not the leader\<close> and leave the engine as it was: nothing is handed to the
  consensus log. The router answers that error with the status \<open>redirect\<close> and the
  message \<open>Not the leader, try: \<close> followed by \<open>GetLeader()\<close>, and it answers
  \<open>redirect\<close> to no error but one whose message contains \<open>not the leader\<close>; its
  dispatch of a SET or DELETE request (in any letter case) that names a key gives that
  answer on such a node.
\<close>

theorem not_leader_redirect:
  assumes "state (raft rs) \<noteq> Leader"
  shows "RaftStore_Set marshal commit key value rs = (Some ''not the leader'', rs)
       \<and> RaftStore_Delete marshal commit key rs = (Some ''not the leader'', rs)
       \<and> Contains ''not the leader'' ''not the leader''
       \<and> mutation_response (Some ''not the leader'') rs
           = response ''redirect'' (''Not the leader, try: '' @ GetLeader rs)
       \<and> (Status (mutation_response (Some e) rs) = ''redirect'') = Contains e ''not the leader''
       \<and> (Key cmd \<noteq> [] \<and> (ToUpper (Op cmd) = ''SET'' \<or> ToUpper (Op cmd) = ''DELETE'')
            \<longrightarrow> RaftServer_processCommand clock marshal commit cmd rs
                 = (response ''redirect'' (''Not the leader, try: '' @ GetLeader rs), rs))"
proof -
  have c: "Contains ''not the leader'' ''not the leader''"
    by simp
  have s: "RaftStore_Set marshal commit k v rs = (Some ''not the leader'', rs)" for k v
    using assms by (simp add: RaftStore_Set_def)
  have d: "RaftStore_Delete marshal commit k rs = (Some ''not the leader'', rs)" for k
    using assms by (simp add: RaftStore_Delete_def)
  have m: "mutation_response (Some ''not the leader'') rs
           = response ''redirect'' (''Not the leader, try: '' @ GetLeader rs)"
    unfolding mutation_response_def using c by simp
  have only: "(Status (mutation_response (Some e) rs) = ''redirect'') = Contains e ''not the leader''"
    by (simp add: mutation_response_def response_def)
  show ?thesis
    using c m only by (auto simp: s d RaftServer_processCommand_def Let_def)
qed

theorem not_leader_redirect_witness:
  "state (raft \<lparr>store = fresh_Store,
        raft = \<lparr>state = Follower, leader = ''localhost:7000'', servers = [],
                 submitted = []\<rparr>\<rparr>) \<noteq> Leader
   \<and> RaftServer_processCommand (\<lambda>i. 0) (\<lambda>c. Inr ''payload'') None
       \<lparr>Op = ''set'', Key = ''k'', cmd_Value = ''v'', ExpiresIn = 1000000000\<rparr>
       \<lparr>store = fresh_Store,
        raft = \<lparr>state = Follower, leader = ''localhost:7000'', servers = [],
                 submitted = []\<rparr>\<rparr>
     = (\<lparr>Status = ''redirect'', Message = ''Not the leader, try: localhost:7000'',
         resp_Value = [], TTL = 0\<rparr>,
        \<lparr>store = fresh_Store,
         raft = \<lparr>state = Follower, leader = ''localhost:7000'', servers = [],
                  submitted = []\<rparr>\<rparr>)"
proof -
  have up: "ToUpper ''set'' = ''SET''"
    by code_simp
  show ?thesis
    using not_leader_redirect
      [where rs = "\<lparr>store = fresh_Store,
            raft = \<lparr>state = Follower, leader = ''localhost:7000'', servers = [],
                     submitted = []\<rparr>\<rparr>"
         and cmd = "\<lparr>Op = ''set'', Key = ''k'', cmd_Value = ''v'', ExpiresIn = 1000000000\<rparr>"
         and clock = "\<lambda>i. 0" and marshal = "\<lambda>c. Inr ''payload''" and commit = None]
    by (simp add: up GetLeader_def response_def)
qed

text \<open>
  C9, as the code has it. The clustered router answers a request whose \<open>op\<close> is STATUS
  in any letter case with the status \<open>success\<close> and the message \<open>Node status: leader\<close>
  on the leader, \<open>Node status: follower\<close> otherwise. The single-node router has no
  such case: it answers \<open>Unknown command\<close>, which the counterexample shows.
\<close>

theorem RaftServer_STATUS:
  "ToUpper (Op cmd) = ''STATUS'' \<Longrightarrow>
   RaftServer_processCommand clock marshal commit cmd rs
     = (response ''success'' (if IsLeader rs then ''Node status: leader'' else ''Node status: follower''), rs)"
  by (simp add: RaftServer_processCommand_def)

theorem RaftServer_STATUS_witness:
  "ToUpper (Op \<lparr>Op = ''Status'', Key = [], cmd_Value = [], ExpiresIn = 0\<rparr>) = ''STATUS''
   \<and> RaftServer_processCommand (\<lambda>i. 0) (\<lambda>c. Inr ''payload'') None
       \<lparr>Op = ''Status'', Key = [], cmd_Value = [], ExpiresIn = 0\<rparr>
       \<lparr>store = fresh_Store,
        raft = \<lparr>state = Candidate, leader = [], servers = [], submitted = []\<rparr>\<rparr>
     = (\<lparr>Status = ''success'', Message = ''Node status: follower'', resp_Value = [],
         TTL = 0\<rparr>,
        \<lparr>store = fresh_Store,
         raft = \<lparr>state = Candidate, leader = [], servers = [], submitted = []\<rparr>\<rparr>)"
proof -
  have up: "ToUpper ''Status'' = ''STATUS''"
    by code_simp
  show ?thesis
    using RaftServer_STATUS
      [of "\<lparr>Op = ''Status'', Key = [], cmd_Value = [], ExpiresIn = 0\<rparr>" "\<lambda>i. 0"
          "\<lambda>c. Inr ''payload''" None
          "\<lparr>store = fresh_Store,
            raft = \<lparr>state = Candidate, leader = [], servers = [], submitted = []\<rparr>\<rparr>"]
    by (simp add: up IsLeader_def response_def)
qed

theorem Server_STATUS_counterexample:
  "Server_processCommand (\<lambda>i. 0) Written \<lparr>Op = ''STATUS'', Key = [], cmd_Value = [], ExpiresIn = 0\<rparr> fresh_Store
     = (\<lparr>Status = ''error'', Message = ''Unknown command'', resp_Value = [], TTL = 0\<rparr>, fresh_Store)"
proof -
  have up: "ToUpper ''STATUS'' = ''STATUS''"
    by code_simp
  show ?thesis
    by (simp add: Server_processCommand_def up response_def)
qed


section \<open>Properties of the snapshots\<close>






section \<open>Properties of the RFC 3339 layout\<close>












lemma digit_table:
  fixes k :: nat
  assumes "k < 10"
  shows "(of_char (''0123456789'' ! k) :: nat) = 48 + k"
proof -
  consider "k = 0" | "k = 1" | "k = 2" | "k = 3" | "k = 4" | "k = 5" | "k = 6" | "k = 7"
    | "k = 8" | "k = 9"
    using assms by atomize_elim arith
  then show ?thesis
    by cases simp_all
qed

lemma of_char_digit: "(of_char (digit n) :: nat) = 48 + n mod 10"
  unfolding digit_def by (rule digit_table) simp



lemma isDigit_digit [simp]: "isDigit (digit n)"
  by (simp add: isDigit_def of_char_digit)

lemma digit_0: "digit 0 = CHR ''0''"
  by (simp add: digit_def)



lemma digit_div_small: "n < 10 \<Longrightarrow> digit (n div 10) = CHR ''0''"
  by (simp add: digit_0)










section \<open>Properties of the replay\<close>

lemma digit_plain: "digit d \<noteq> CHR '' '' \<and> digit d \<noteq> CHR 0x0A"
proof -
  have "digit d \<in> set ''0123456789''"
    unfolding digit_def by (rule nth_mem) simp
  then show ?thesis by auto
qed

lemma digits_plain: "c \<in> set (digits n) \<Longrightarrow> c \<noteq> CHR '' '' \<and> c \<noteq> CHR 0x0A"
proof (induction n rule: digits.induct)
  case (1 n)
  show ?case
  proof (cases "n < 10")
    case True
    then show ?thesis
      using "1.prems" digit_plain [of n] by (subst (asm) digits.simps) simp
  next
    case False
    then show ?thesis
      using 1 digit_plain [of n] by (subst (asm) digits.simps) auto
  qed
qed

lemma appendInt_plain: "c \<in> set (appendInt x w) \<Longrightarrow> c \<noteq> CHR '' '' \<and> c \<noteq> CHR 0x0A"
  using digits_plain [of c "nat \<bar>x\<bar>"]
  by (auto simp: appendInt_def Let_def split: if_splits)

lemma format_RFC3339_plain:
  "c \<in> set (format_RFC3339 t) \<Longrightarrow> c \<noteq> CHR '' '' \<and> c \<noteq> CHR 0x0A"
  using appendInt_plain [of c]
  by (auto simp: format_RFC3339_def Let_def split: prod.splits)

lemma format_RFC3339_no_space [simp]: "CHR '' '' \<notin> set (format_RFC3339 t)"
  using format_RFC3339_plain [of "CHR '' ''" t] by auto

lemma format_RFC3339_no_LF [simp]: "CHR 0x0A \<notin> set (format_RFC3339 t)"
  using format_RFC3339_plain [of "CHR 0x0A" t] by auto


lemma Split_not_Nil [simp]: "Split s c \<noteq> []"
  by (induction s) (auto split: list.split)






lemma scan_lines_line:
  "CHR 0x0A \<notin> set l \<Longrightarrow> length (tok @ l) < MaxScanTokenSize \<Longrightarrow>
   scan_lines tok (l @ CHR 0x0A # rest) = dropCR (tok @ l) # scan_lines [] rest"
  by (induction l arbitrary: tok) auto



text \<open>
  Two ways in which the scanner does not give back the line that was written: a
  carriage return at the end of a line is dropped, and a line that does not fit the
  buffer ends the scan, so that it and every line after it are lost to the replay.
\<close>

lemma scan_lines_drops_CR:
  assumes "CHR 0x0A \<notin> set l" and "Suc (length l) < MaxScanTokenSize"
  shows "scan_lines [] (l @ [CHR 0x0D, CHR 0x0A]) = [l]"
proof -
  have "scan_lines [] ((l @ [CHR 0x0D]) @ CHR 0x0A # [])
          = dropCR ([] @ (l @ [CHR 0x0D])) # scan_lines [] []"
    using assms by (intro scan_lines_line) simp_all
  then show ?thesis
    by (simp add: dropCR_def)
qed

lemma scan_lines_too_long:
  "CHR 0x0A \<notin> set l \<Longrightarrow> MaxScanTokenSize \<le> length (tok @ l) \<Longrightarrow>
   scan_lines tok (l @ rest) = []"
proof (induction l arbitrary: tok)
  case Nil
  then show ?case by (cases rest) simp_all
next
  case (Cons c l)
  show ?case
  proof (cases "MaxScanTokenSize \<le> length tok")
    case True
    then show ?thesis by simp
  next
    case False
    have "scan_lines (tok @ [c]) (l @ rest) = []"
      using Cons.prems by (intro Cons.IH) simp_all
    then show ?thesis
      using False Cons.prems by auto
  qed
qed

















end
